theory Spec2Isabelle
  imports Main
begin

section \<open>Data model\<close>

text \<open>
  The resolver of \<^verbatim>\<open>package users\<close> turns a git user (\<^verbatim>\<open>gits.GitUser\<close>) into a Jenkins X
  user (\<^verbatim>\<open>jenkinsv1.User\<close>), looking the user up in the \<^verbatim>\<open>users.jenkins.io\<close> resources
  and at the git provider. Go structs are records; a Go pointer that the code tests against
  \<^verbatim>\<open>nil\<close> is an \<open>option\<close>.
\<close>

record GitUser =
  Login :: string
  Email :: string
  Name :: string
  URL :: string
  AvatarURL :: string

record AccountReference =
  Provider :: string
  ID :: string

text \<open>
  \<^verbatim>\<open>jenkinsv1.UserDetails\<close>, the \<^verbatim>\<open>Spec\<close> of a user. The fields are prefixed with
  \<open>Spec_\<close> where \<^verbatim>\<open>gits.GitUser\<close> has a field of the same name. A nil slice and an empty
  slice are both \<open>[]\<close>: \<^verbatim>\<open>range\<close>, \<^verbatim>\<open>len\<close> and \<^verbatim>\<open>append\<close> treat them alike, and the
  code's only nil test on \<^verbatim>\<open>Accounts\<close> replaces nil by an empty slice before appending.
\<close>

record UserDetails =
  Spec_Login :: string
  Spec_Name :: string
  Spec_Email :: string
  Spec_URL :: string
  Spec_AvatarURL :: string
  Accounts :: "AccountReference list"

text \<open>
  \<^verbatim>\<open>jenkinsv1.User\<close>: the object's name and namespace, its labels (a Go map, which may be
  nil) and its \<^verbatim>\<open>Spec\<close>.
\<close>

record User =
  User_Name :: string
  User_Namespace :: string
  Labels :: "(string \<rightharpoonup> string) option"
  Spec :: UserDetails

text \<open>
  Of \<^verbatim>\<open>gits.GitCommit\<close> the code reads the author only, a pointer that may be nil. The
  commits themselves are taken to be non-nil pointers.
\<close>

record GitCommit =
  Author :: "GitUser option"

record ListOptions =
  LabelSelector :: string

text \<open>
  \<^verbatim>\<open>gits.GitProvider\<close>, of which the resolver calls \<^verbatim>\<open>Kind()\<close> and
  \<^verbatim>\<open>UserInfo(login)\<close>; the latter returns nil when the provider does not know the login.
\<close>

record GitProvider =
  Kind :: string
  UserInfo :: "string \<Rightarrow> GitUser option"

text \<open>
  The client of the \<^verbatim>\<open>users.jenkins.io\<close> resources,
  \<^verbatim>\<open>r.JXClient.JenkinsV1().Users(namespace)\<close>, over a store of type \<open>'s\<close> with errors of
  type \<open>'e\<close>. \<^verbatim>\<open>List\<close> reads the store. \<^verbatim>\<open>Update\<close> and \<^verbatim>\<open>Create\<close> either fail with an
  error, and then leave the store as it is, or return the stored user and the new store.
\<close>

record ('s, 'e) JXClient =
  Users_List :: "string \<Rightarrow> ListOptions \<Rightarrow> 's \<Rightarrow> 'e + User list"
  Users_Update :: "string \<Rightarrow> User \<Rightarrow> 's \<Rightarrow> 'e + User \<times> 's"
  Users_Create :: "string \<Rightarrow> User \<Rightarrow> 's \<Rightarrow> 'e + User \<times> 's"

record ('s, 'e) GitUserResolver =
  GitProvider :: GitProvider
  JXClient :: "('s, 'e) JXClient"
  Namespace :: string

text \<open>
  The errors of the resolver: the three \<^verbatim>\<open>fmt.Errorf\<close> messages about more than one user
  carry the values the message is formatted from; an error of the client is passed on as it
  is; a nil pointer that the code would dereference is a panic.
\<close>

datatype 'e resolve_error =
    UserNil
  | MoreThanOneLabel string "User list"
  | MoreThanOneLogin string string "string list"
  | MoreThanOneEmail string "string list"
  | StoreError 'e
  | NilPointerDereference

fun AmbiguousIdentity :: "'e resolve_error \<Rightarrow> bool" where
  "AmbiguousIdentity (MoreThanOneLabel labelSelector items) = True"
| "AmbiguousIdentity (MoreThanOneLogin login providerKey names) = True"
| "AmbiguousIdentity (MoreThanOneEmail email names) = True"
| "AmbiguousIdentity _ = False"

text \<open>The calls that write to the store, in the order the resolver issues them.\<close>

datatype store_write = UpdateCall User | CreateCall User

type_synonym ('s, 'e) outcome = "('e resolve_error + User) \<times> store_write list \<times> 's"

section \<open>Helpers of the resolver\<close>

definition GitProviderKey :: "('s, 'e) GitUserResolver \<Rightarrow> string" where
  "GitProviderKey r = ''jenkins.io/git-'' @ Kind (GitProvider r) @ ''-userid''"

text \<open>\<^verbatim>\<open>mergeGitUsers\<close>: either argument may be nil, and so may the result.\<close>

definition mergeGitUsers :: "GitUser option \<Rightarrow> GitUser option \<Rightarrow> GitUser option" where
  "mergeGitUsers user1 user2 =
     (case user1 of
        None \<Rightarrow> user2
      | Some u1 \<Rightarrow>
          (case user2 of
             None \<Rightarrow> user1
           | Some u2 \<Rightarrow>
               Some \<lparr> Login = (if Login u1 \<noteq> [] then Login u1 else Login u2),
                      Email = (if Email u1 \<noteq> [] then Email u1 else Email u2),
                      Name = (if Name u1 \<noteq> [] then Name u1 else Name u2),
                      URL = (if URL u1 \<noteq> [] then URL u1 else URL u2),
                      AvatarURL = (if AvatarURL u1 \<noteq> [] then AvatarURL u1 else AvatarURL u2) \<rparr>))"

text \<open>\<^verbatim>\<open>GitUserLogin\<close>: the ID of the first account of this provider, or the empty string.\<close>

fun firstAccountID :: "string \<Rightarrow> AccountReference list \<Rightarrow> string" where
  "firstAccountID providerKey [] = []"
| "firstAccountID providerKey (a # as) =
     (if Provider a = providerKey then ID a else firstAccountID providerKey as)"

definition GitUserLogin :: "('s, 'e) GitUserResolver \<Rightarrow> User \<Rightarrow> string" where
  "GitUserLogin r user = firstAccountID (GitProviderKey r) (Accounts (Spec user))"

text \<open>
  Modelled from the spec: \<^verbatim>\<open>CreateUser\<close> and \<^verbatim>\<open>AddAccountReference\<close>, which
  \<^verbatim>\<open>GitUserToUser\<close> calls and whose bodies are not in the source file. The creation stage
  is to "synthesize a new Canonical Identity Record from the merged fields, attach one
  AccountReference for this provider, and create it in the store". \<^verbatim>\<open>CreateUser\<close> is called
  with the namespace, the login, the name and the email, so the new user has these and
  nothing else; its name is the store's identifier, taken to be the login.
  \<^verbatim>\<open>AddAccountReference\<close> appends the account of the provider.
\<close>

definition CreateUser :: "string \<Rightarrow> string \<Rightarrow> string \<Rightarrow> string \<Rightarrow> User" where
  "CreateUser ns login name email =
     \<lparr> User_Name = login, User_Namespace = ns, Labels = None,
       Spec = \<lparr> Spec_Login = login, Spec_Name = name, Spec_Email = email,
                Spec_URL = [], Spec_AvatarURL = [], Accounts = [] \<rparr> \<rparr>"

definition AddAccountReference :: "User \<Rightarrow> string \<Rightarrow> string \<Rightarrow> User" where
  "AddAccountReference user gitProviderKey accountID =
     user\<lparr> Spec := (Spec user)\<lparr> Accounts :=
       Accounts (Spec user) @ [\<lparr> Provider = gitProviderKey, ID = accountID \<rparr>] \<rparr> \<rparr>"

definition GitUserToUser :: "('s, 'e) GitUserResolver \<Rightarrow> GitUser \<Rightarrow> User" where
  "GitUserToUser r gitUser =
     AddAccountReference
       (CreateUser (Namespace r) (Login gitUser) (Name gitUser) (Email gitUser))
       (GitProviderKey r) (Login gitUser)"

definition UserToGitUser :: "('s, 'e) GitUserResolver \<Rightarrow> string \<Rightarrow> User \<Rightarrow> GitUser" where
  "UserToGitUser r accountID user =
     \<lparr> Login = accountID, Email = Spec_Email (Spec user), Name = Spec_Name (Spec user),
       URL = Spec_URL (Spec user), AvatarURL = Spec_AvatarURL (Spec user) \<rparr>"

text \<open>
  \<^verbatim>\<open>if found.Labels == nil { found.Labels = make(map[string]string) }\<close> followed by
  \<^verbatim>\<open>found.Labels[key] = value\<close>.
\<close>

definition setLabel :: "string \<Rightarrow> string \<Rightarrow> User \<Rightarrow> User" where
  "setLabel key val found =
     found\<lparr> Labels := Some ((case Labels found of None \<Rightarrow> Map.empty | Some m \<Rightarrow> m)(key \<mapsto> val)) \<rparr>"

text \<open>
  \<^verbatim>\<open>if found.Spec.Accounts == nil { ... }\<close> followed by
  \<^verbatim>\<open>found.Spec.Accounts = append(found.Spec.Accounts, AccountReference{ID: id, Provider: key})\<close>.
\<close>

definition appendAccount :: "string \<Rightarrow> string \<Rightarrow> User \<Rightarrow> User" where
  "appendAccount accountID providerKey found =
     found\<lparr> Spec := (Spec found)\<lparr> Accounts :=
       Accounts (Spec found) @ [\<lparr> Provider = providerKey, ID = accountID \<rparr>] \<rparr> \<rparr>"

text \<open>
  The calls \<^verbatim>\<open>Users(r.Namespace).Update(found)\<close> and \<^verbatim>\<open>Users(r.Namespace).Create(u)\<close>
  whose result the resolver returns: the call is recorded, an error of the client is the
  resolver's error. The log lines around the calls are not modelled; the one between the
  second \<^verbatim>\<open>Update\<close> and its error check reads the returned user, which the generated
  client returns non-nil also beside an error.
\<close>

definition callUpdate :: "('s, 'e) GitUserResolver \<Rightarrow> User \<Rightarrow> 's \<Rightarrow> ('s, 'e) outcome" where
  "callUpdate r found s =
     (case Users_Update (JXClient r) (Namespace r) found s of
        Inl err \<Rightarrow> (Inl (StoreError err), [UpdateCall found], s)
      | Inr (found', s') \<Rightarrow> (Inr found', [UpdateCall found], s'))"

definition callCreate :: "('s, 'e) GitUserResolver \<Rightarrow> User \<Rightarrow> 's \<Rightarrow> ('s, 'e) outcome" where
  "callCreate r u s =
     (case Users_Create (JXClient r) (Namespace r) u s of
        Inl err \<Rightarrow> (Inl (StoreError err), [CreateCall u], s)
      | Inr (u', s') \<Rightarrow> (Inr u', [CreateCall u], s'))"

section \<open>GitUserAsUser\<close>

text \<open>
  The loop over \<^verbatim>\<open>users.Items\<close> and each user's \<^verbatim>\<open>Spec.Accounts\<close>: a user is appended to
  \<^verbatim>\<open>possibles\<close> once for every account of this provider with this login.
\<close>

definition accountPossibles :: "string \<Rightarrow> string \<Rightarrow> User list \<Rightarrow> User list" where
  "accountPossibles providerKey login items =
     concat (map (\<lambda>u. concat (map (\<lambda>a. if Provider a = providerKey \<and> ID a = login then [u] else [])
                                   (Accounts (Spec u)))) items)"

text \<open>
  The last part of \<^verbatim>\<open>GitUserAsUser\<close>, from the call of the git provider on: the users with
  the email of the provider's user, and then the error, the update of the one user found, or
  the creation of a new user.
\<close>

definition resolveByEmail ::
  "('s, 'e) GitUserResolver \<Rightarrow> GitUser \<Rightarrow> User list \<Rightarrow> 's \<Rightarrow> ('s, 'e) outcome" where
  "resolveByEmail r user items s =
     (let providerKey = GitProviderKey r;
          gitUser = UserInfo (GitProvider r) (Login user);
          possibles = (case gitUser of
                         None \<Rightarrow> []
                       | Some g \<Rightarrow> filter (\<lambda>u. Spec_Email (Spec u) = Email g) items)
      in if length possibles > 1 then
           (case gitUser of
              None \<Rightarrow> (Inl NilPointerDereference, [], s)
            | Some g \<Rightarrow> (Inl (MoreThanOneEmail (Email g) (map User_Name possibles)), [], s))
         else if length possibles = 1 then
           (case gitUser of
              None \<Rightarrow> (Inl NilPointerDereference, [], s)
            | Some g \<Rightarrow>
                callUpdate r
                  (setLabel providerKey (Login user)
                     (appendAccount (Login g) providerKey (possibles ! 0))) s)
         else
           (case mergeGitUsers gitUser (Some user) of
              None \<Rightarrow> (Inl NilPointerDereference, [], s)
            | Some merged \<Rightarrow> callCreate r (GitUserToUser r merged) s))"

text \<open>
  The middle part, from the listing of all users on: with a login, the users that have an
  account of this provider with this login.
\<close>

definition resolveByAccount ::
  "('s, 'e) GitUserResolver \<Rightarrow> GitUser \<Rightarrow> 's \<Rightarrow> ('s, 'e) outcome" where
  "resolveByAccount r user s =
     (let providerKey = GitProviderKey r
      in case Users_List (JXClient r) (Namespace r) \<lparr> LabelSelector = [] \<rparr> s of
           Inl err \<Rightarrow> (Inl (StoreError err), [], s)
         | Inr items \<Rightarrow>
             if Login user \<noteq> [] then
               (let possibles = accountPossibles providerKey (Login user) items
                in if length possibles > 1 then
                     (Inl (MoreThanOneLogin (Login user) providerKey (map User_Name possibles)),
                      [], s)
                   else if length possibles = 1 then
                     callUpdate r (setLabel providerKey (Login user) (possibles ! 0)) s
                   else resolveByEmail r user items s)
             else resolveByEmail r user items s)"

definition labelSelectorOf :: "string \<Rightarrow> string \<Rightarrow> string" where
  "labelSelectorOf providerKey login = providerKey @ ''='' @ login"

definition GitUserAsUser ::
  "('s, 'e) GitUserResolver \<Rightarrow> GitUser option \<Rightarrow> 's \<Rightarrow> ('s, 'e) outcome" where
  "GitUserAsUser r user s =
     (case user of
        None \<Rightarrow> (Inl UserNil, [], s)
      | Some usr \<Rightarrow>
          (let providerKey = GitProviderKey r
           in if Login usr \<noteq> [] then
                (let labelSelector = labelSelectorOf providerKey (Login usr)
                 in case Users_List (JXClient r) (Namespace r)
                           \<lparr> LabelSelector = labelSelector \<rparr> s of
                      Inl err \<Rightarrow> (Inl (StoreError err), [], s)
                    | Inr items \<Rightarrow>
                        if length items > 1 then
                          (Inl (MoreThanOneLabel labelSelector items), [], s)
                        else if length items = 1 then (Inr (items ! 0), [], s)
                        else resolveByAccount r usr s)
              else resolveByAccount r usr s))"

section \<open>UpdateUserFromPRAuthor\<close>

text \<open>
  The loop over the commits: the email of the author of the first commit whose author is
  not nil and has the login \<open>gitLogin\<close>, if there is one.
\<close>

fun commitAuthorEmail :: "string \<Rightarrow> GitCommit list \<Rightarrow> string option" where
  "commitAuthorEmail gitLogin [] = None"
| "commitAuthorEmail gitLogin (commit # commits) =
     (case Author commit of
        None \<Rightarrow> commitAuthorEmail gitLogin commits
      | Some a \<Rightarrow>
          if gitLogin = Login a then Some (Email a) else commitAuthorEmail gitLogin commits)"

text \<open>
  The login the commits are compared with: \<^verbatim>\<open>r.GitUserLogin(author)\<close>, and
  \<^verbatim>\<open>author.Spec.Login\<close> when that is empty.
\<close>

definition authorGitLogin :: "('s, 'e) GitUserResolver \<Rightarrow> User \<Rightarrow> string" where
  "authorGitLogin r author =
     (let gitLogin = GitUserLogin r author
      in if gitLogin = [] then Spec_Login (Spec author) else gitLogin)"

text \<open>
  The result is the pair \<^verbatim>\<open>(*jenkinsv1.User, error)\<close>, where the user is nil when the author
  given is. The pull request is only tested against nil.
\<close>

definition UpdateUserFromPRAuthor ::
  "('s, 'e) GitUserResolver \<Rightarrow> User option \<Rightarrow> 'pr option \<Rightarrow> GitCommit list \<Rightarrow> 's \<Rightarrow>
     ('e resolve_error + User option) \<times> store_write list \<times> 's" where
  "UpdateUserFromPRAuthor r author pullRequest commits s =
     (if pullRequest \<noteq> None then
        (case author of
           None \<Rightarrow> (Inr author, [], s)
         | Some a \<Rightarrow>
             (let gitLogin = authorGitLogin r a
              in case commitAuthorEmail gitLogin commits of
                   None \<Rightarrow> (Inr author, [], s)
                 | Some email \<Rightarrow>
                     (case callUpdate r (a\<lparr> Spec := (Spec a)\<lparr> Spec_Email := email \<rparr> \<rparr>) s of
                        (Inl err, ws, s') \<Rightarrow> (Inl err, ws, s')
                      | (Inr a', ws, s') \<Rightarrow> (Inr (Some a'), ws, s'))))
      else (Inr author, [], s))"

section \<open>A store in memory\<close>

text \<open>
  Modelled from the spec: the Identity Store Client, which is not code of this package. The
  store is the list of its users. \<^verbatim>\<open>List\<close> without a selector returns all users of the
  namespace, \<^verbatim>\<open>List\<close> with the selector \<open>key=value\<close> those that have the label;
  \<^verbatim>\<open>Update\<close> replaces the user of the same name and \<^verbatim>\<open>Create\<close> adds a user whose name is
  new. It serves to run the resolver on concrete stores.
\<close>

datatype store_error = NotFound | AlreadyExists

definition hasLabel :: "string \<Rightarrow> User \<Rightarrow> bool" where
  "hasLabel selector u =
     (case Labels u of
        None \<Rightarrow> False
      | Some m \<Rightarrow> m (takeWhile (\<lambda>c. c \<noteq> CHR ''='') selector) =
                    Some (drop 1 (dropWhile (\<lambda>c. c \<noteq> CHR ''='') selector)))"

definition mem_List :: "string \<Rightarrow> ListOptions \<Rightarrow> User list \<Rightarrow> store_error + User list" where
  "mem_List ns opts s =
     Inr (filter (\<lambda>u. User_Namespace u = ns \<and>
                       (LabelSelector opts = [] \<or> hasLabel (LabelSelector opts) u)) s)"

definition mem_Update :: "string \<Rightarrow> User \<Rightarrow> User list \<Rightarrow> store_error + User \<times> User list" where
  "mem_Update ns u s =
     (if User_Name u \<in> set (map User_Name s)
      then Inr (u, map (\<lambda>x. if User_Name x = User_Name u then u else x) s)
      else Inl NotFound)"

definition mem_Create :: "string \<Rightarrow> User \<Rightarrow> User list \<Rightarrow> store_error + User \<times> User list" where
  "mem_Create ns u s =
     (if User_Name u \<in> set (map User_Name s) then Inl AlreadyExists else Inr (u, s @ [u]))"

definition mem_client :: "(User list, store_error) JXClient" where
  "mem_client =
     \<lparr> Users_List = mem_List, Users_Update = mem_Update, Users_Create = mem_Create \<rparr>"

text \<open>A resolver for the provider of kind \<open>github\<close> with the given users, on the store in memory.\<close>

definition github :: "(string \<Rightarrow> GitUser option) \<Rightarrow> (User list, store_error) GitUserResolver" where
  "github info =
     \<lparr> GitProvider = \<lparr> Kind = ''github'', UserInfo = info \<rparr>,
       JXClient = mem_client, Namespace = ''jx'' \<rparr>"

section \<open>Examples\<close>

text \<open>Git users, stored users and providers for running the resolver on concrete inputs.\<close>

definition bob :: GitUser where
  "bob = \<lparr> Login = ''bob'', Email = [], Name = ''Bob'', URL = ''https://git.example/bob'',
           AvatarURL = [] \<rparr>"

definition nobody :: "string \<Rightarrow> GitUser option" where
  "nobody login = None"

definition knows_bob :: "string \<Rightarrow> GitUser option" where
  "knows_bob login = (if login = ''bob'' then Some bob else None)"

definition alice :: GitUser where
  "alice = \<lparr> Login = ''alice'', Email = [], Name = [], URL = [], AvatarURL = [] \<rparr>"

definition alice_remote :: GitUser where
  "alice_remote = \<lparr> Login = ''alice'', Email = ''alice@co.io'', Name = ''Alice'', URL = [],
                    AvatarURL = [] \<rparr>"

definition knows_alice :: "string \<Rightarrow> GitUser option" where
  "knows_alice login = (if login = ''alice'' then Some alice_remote else None)"

definition stored :: "string \<Rightarrow> string \<Rightarrow> AccountReference list \<Rightarrow> User" where
  "stored name email accounts =
     \<lparr> User_Name = name, User_Namespace = ''jx'', Labels = None,
       Spec = \<lparr> Spec_Login = name, Spec_Name = name, Spec_Email = email,
                Spec_URL = [], Spec_AvatarURL = [], Accounts = accounts \<rparr> \<rparr>"

definition bob_account :: AccountReference where
  "bob_account = \<lparr> Provider = ''jenkins.io/git-github-userid'', ID = ''bob'' \<rparr>"

definition alice_account :: AccountReference where
  "alice_account = \<lparr> Provider = ''jenkins.io/git-github-userid'', ID = ''alice'' \<rparr>"

definition empty_login_account :: AccountReference where
  "empty_login_account = \<lparr> Provider = ''jenkins.io/git-github-userid'', ID = [] \<rparr>"

text \<open>The git user that \<^verbatim>\<open>GitSignatureAsUser\<close> builds from a signature: no login.\<close>

definition signature :: GitUser where
  "signature = \<lparr> Login = [], Email = ''alice@co.io'', Name = ''Alice'', URL = [],
                 AvatarURL = [] \<rparr>"

definition labelled :: "User \<Rightarrow> User" where
  "labelled u = setLabel ''jenkins.io/git-github-userid'' ''bob'' u"

section \<open>Notions used in the statements\<close>

text \<open>
  The listing by label, \<^verbatim>\<open>List(metav1.ListOptions{LabelSelector: labelSelector})\<close>, the
  listing of all users, \<^verbatim>\<open>List(metav1.ListOptions{})\<close>, and a user that has an account of
  the provider with the login.
\<close>

abbreviation labelLookup :: "('s, 'e) GitUserResolver \<Rightarrow> GitUser \<Rightarrow> 's \<Rightarrow> 'e + User list" where
  "labelLookup r user s \<equiv>
     Users_List (JXClient r) (Namespace r)
       \<lparr> LabelSelector = labelSelectorOf (GitProviderKey r) (Login user) \<rparr> s"

abbreviation listAll :: "('s, 'e) GitUserResolver \<Rightarrow> 's \<Rightarrow> 'e + User list" where
  "listAll r s \<equiv> Users_List (JXClient r) (Namespace r) \<lparr> LabelSelector = [] \<rparr> s"


section \<open>Facts about the helpers\<close>

lemmas run_defs = GitUserAsUser_def resolveByAccount_def resolveByEmail_def github_def mem_client_def
     mem_List_def mem_Update_def mem_Create_def hasLabel_def labelSelectorOf_def GitProviderKey_def accountPossibles_def
     callUpdate_def callCreate_def setLabel_def appendAccount_def Let_def mergeGitUsers_def GitUserToUser_def CreateUser_def AddAccountReference_def
     bob_def nobody_def knows_bob_def stored_def bob_account_def labelled_def alice_def alice_remote_def knows_alice_def

lemma callUpdate_cases:
  "(\<exists>err. callUpdate r u s = (Inl (StoreError err), [UpdateCall u], s)) \<or>
   (\<exists>u' s'. callUpdate r u s = (Inr u', [UpdateCall u], s'))"
  by (auto simp: callUpdate_def split: sum.splits prod.splits)

lemma callCreate_cases:
  "(\<exists>err. callCreate r u s = (Inl (StoreError err), [CreateCall u], s)) \<or>
   (\<exists>u' s'. callCreate r u s = (Inr u', [CreateCall u], s'))"
  by (auto simp: callCreate_def split: sum.splits prod.splits)

lemma callUpdate_writes: "callUpdate r u s = (res, ws, s') \<Longrightarrow> ws = [UpdateCall u]"
  by (auto simp: callUpdate_def split: sum.splits prod.splits)

lemma callCreate_writes: "callCreate r u s = (res, ws, s') \<Longrightarrow> ws = [CreateCall u]"
  by (auto simp: callCreate_def split: sum.splits prod.splits)




lemma firstAccountID_none:
  "\<forall>a\<in>set as. Provider a \<noteq> providerKey \<Longrightarrow> firstAccountID providerKey as = []"
  by (induction as) auto

lemma firstAccountID_first:
  "\<forall>b\<in>set before. Provider b \<noteq> providerKey \<Longrightarrow> Provider a = providerKey \<Longrightarrow>
   firstAccountID providerKey (before @ a # rest) = ID a"
  by (induction before) auto

lemma commitAuthorEmail_none:
  "\<forall>c\<in>set commits. \<forall>b. Author c = Some b \<longrightarrow> Login b \<noteq> gitLogin \<Longrightarrow>
   commitAuthorEmail gitLogin commits = None"
  by (induction commits) (auto split: option.splits)

lemma commitAuthorEmail_first:
  "\<forall>c\<in>set before. \<forall>b. Author c = Some b \<longrightarrow> Login b \<noteq> gitLogin \<Longrightarrow>
   Author commit = Some a \<Longrightarrow> Login a = gitLogin \<Longrightarrow>
   commitAuthorEmail gitLogin (before @ commit # rest) = Some (Email a)"
  by (induction before) (auto split: option.splits)


section \<open>The shape of a resolution\<close>

lemma resolveByEmail_cases:
  "(\<exists>email names. resolveByEmail r user items s = (Inl (MoreThanOneEmail email names), [], s)) \<or>
   (\<exists>found. resolveByEmail r user items s =
       callUpdate r (setLabel (GitProviderKey r) (Login user) found) s) \<or>
   (\<exists>merged. resolveByEmail r user items s = callCreate r (GitUserToUser r merged) s)"
proof (cases "UserInfo (GitProvider r) (Login user)")
  case None
  then have "resolveByEmail r user items s = callCreate r (GitUserToUser r user) s"
    by (simp add: resolveByEmail_def mergeGitUsers_def)
  then show ?thesis by blast
next
  case (Some g)
  let ?possibles = "filter (\<lambda>u. Spec_Email (Spec u) = Email g) items"
  consider "length ?possibles > 1" | "length ?possibles = 1" | "length ?possibles = 0"
    by linarith
  then show ?thesis
  proof cases
    case 1
    with Some have "resolveByEmail r user items s =
        (Inl (MoreThanOneEmail (Email g) (map User_Name ?possibles)), [], s)"
      by (simp add: resolveByEmail_def Let_def)
    then show ?thesis by blast
  next
    case 2
    with Some have "resolveByEmail r user items s =
        callUpdate r (setLabel (GitProviderKey r) (Login user)
          (appendAccount (Login g) (GitProviderKey r) (?possibles ! 0))) s"
      by (simp add: resolveByEmail_def Let_def)
    then show ?thesis by blast
  next
    case 3
    with Some obtain merged where "mergeGitUsers (Some g) (Some user) = Some merged"
      by (simp add: mergeGitUsers_def)
    with 3 Some have "resolveByEmail r user items s = callCreate r (GitUserToUser r merged) s"
      by (simp add: resolveByEmail_def Let_def)
    then show ?thesis by blast
  qed
qed

lemma resolveByEmail_returns:
  assumes "resolveByEmail r user items s = (Inr u, ws, s')"
  shows "(\<exists>found (g::GitUser). ws = [UpdateCall (setLabel (GitProviderKey r) (Login user)
            (appendAccount (Login g) (GitProviderKey r) found))]) \<or>
         (\<exists>merged. ws = [CreateCall (GitUserToUser r merged)])"
proof (cases "UserInfo (GitProvider r) (Login user)")
  case None
  with assms have "callCreate r (GitUserToUser r user) s = (Inr u, ws, s')"
    by (simp add: resolveByEmail_def mergeGitUsers_def)
  then have "ws = [CreateCall (GitUserToUser r user)]" by (rule callCreate_writes)
  then show ?thesis by blast
next
  case (Some g)
  let ?possibles = "filter (\<lambda>u. Spec_Email (Spec u) = Email g) items"
  let ?found = "?possibles ! 0"
  consider "length ?possibles > 1" | "length ?possibles = 1" | "length ?possibles = 0"
    by linarith
  then show ?thesis
  proof cases
    case 1
    with Some assms show ?thesis by (simp add: resolveByEmail_def Let_def)
  next
    case 2
    with Some assms have "callUpdate r (setLabel (GitProviderKey r) (Login user)
          (appendAccount (Login g) (GitProviderKey r) ?found)) s =
        (Inr u, ws, s')"
      by (simp add: resolveByEmail_def Let_def)
    then have "ws = [UpdateCall (setLabel (GitProviderKey r) (Login user)
          (appendAccount (Login g) (GitProviderKey r) ?found))]"
      by (rule callUpdate_writes)
    then show ?thesis
      by blast
  next
    case 3
    with Some obtain merged where m: "mergeGitUsers (Some g) (Some user) = Some merged"
      by (simp add: mergeGitUsers_def)
    with 3 Some assms have "callCreate r (GitUserToUser r merged) s = (Inr u, ws, s')"
      by (simp add: resolveByEmail_def Let_def)
    then have "ws = [CreateCall (GitUserToUser r merged)]" by (rule callCreate_writes)
    then show ?thesis by blast
  qed
qed

lemma resolveByEmail_error:
  "resolveByEmail r user items s = (Inl err, ws, s') \<Longrightarrow>
   (\<exists>email names. err = MoreThanOneEmail email names) \<or> (\<exists>e. err = StoreError e)"
  using resolveByEmail_cases [of r user items s] callUpdate_cases callCreate_cases
  by (metis Inl_inject Inl_Inr_False Pair_inject)

lemma resolveByAccount_cases:
  "(\<exists>err. resolveByAccount r user s = (Inl err, [], s)) \<or>
   (\<exists>found. resolveByAccount r user s =
       callUpdate r (setLabel (GitProviderKey r) (Login user) found) s) \<or>
   (\<exists>merged. resolveByAccount r user s = callCreate r (GitUserToUser r merged) s)"
proof (cases "listAll r s")
  case (Inl err)
  then show ?thesis by (simp add: resolveByAccount_def)
next
  case (Inr items)
  with resolveByEmail_cases [of r user items s] show ?thesis
    by (auto simp: resolveByAccount_def Let_def)
qed

lemma GitUserAsUser_cases:
  "(\<exists>err. GitUserAsUser r user s = (Inl err, [], s)) \<or>
   (\<exists>usr hit. user = Some usr \<and> Login usr \<noteq> [] \<and> labelLookup r usr s = Inr [hit] \<and>
       GitUserAsUser r user s = (Inr hit, [], s)) \<or>
   (\<exists>usr found. user = Some usr \<and> GitUserAsUser r user s =
       callUpdate r (setLabel (GitProviderKey r) (Login usr) found) s) \<or>
   (\<exists>merged. GitUserAsUser r user s = callCreate r (GitUserToUser r merged) s)"
proof (cases user)
  case None
  then show ?thesis by (simp add: GitUserAsUser_def)
next
  case (Some usr)
  show ?thesis
  proof (cases "Login usr \<noteq> [] \<and> (\<forall>hits. labelLookup r usr s = Inr hits \<longrightarrow> hits \<noteq> [])")
    case True
    show ?thesis
    proof (cases "labelLookup r usr s")
      case (Inl err)
      with True Some show ?thesis by (simp add: GitUserAsUser_def Let_def)
    next
      case (Inr hits)
      with True have "hits \<noteq> []" by simp
      then have "length hits > 1 \<or> (\<exists>hit. hits = [hit])"
        by (cases hits) (auto simp: neq_Nil_conv)
      with True Some Inr show ?thesis
        by (auto simp: GitUserAsUser_def Let_def)
    qed
  next
    case False
    then have "GitUserAsUser r user s = resolveByAccount r usr s"
      using Some by (auto simp: GitUserAsUser_def Let_def split: sum.splits)
    with resolveByAccount_cases [of r usr s] Some show ?thesis by auto
  qed
qed

lemma GitUserAsUser_fast_path:
  "Login usr \<noteq> [] \<Longrightarrow> labelLookup r usr s = Inr [hit] \<Longrightarrow>
   GitUserAsUser r (Some usr) s = (Inr hit, [], s)"
  by (simp add: GitUserAsUser_def Let_def)

section \<open>The email of the provider's user\<close>

text \<open>
  Claim C1: a stored user matches by email only if the email of the provider's user is not
  empty, so that two empty emails never match. The loop compares \<^verbatim>\<open>u.Spec.Email\<close> with
  \<^verbatim>\<open>gitUser.Email\<close> and has no test for the empty string, unlike the two lookups by
  login, which are skipped for an empty login. Here the provider knows \<open>bob\<close> without an
  email, and the only stored user, \<open>carol\<close>, has no email and no account: the resolver takes
  \<open>carol\<close> for \<open>bob\<close>, appends bob's account to her, labels her and updates her in the store.
\<close>

theorem GitUserAsUser_matches_empty_emails:
  "Email bob = [] \<and> Spec_Email (Spec (stored ''carol'' [] [])) = [] \<and>
   GitUserAsUser (github knows_bob) (Some bob) [stored ''carol'' [] []] =
     (Inr (labelled (stored ''carol'' [] [bob_account])),
      [UpdateCall (labelled (stored ''carol'' [] [bob_account]))],
      [labelled (stored ''carol'' [] [bob_account])])"
  by (simp add: run_defs)

section \<open>More than one candidate\<close>

text \<open>
  Claim C2: whenever a stage finds more than one candidate, the resolver returns an error
  of ambiguity and writes nothing. The three stages in turn: the listing by label, reached
  with a login, returns more than one user; the scan of the accounts, reached with a login
  when the listing by label is empty, appends more than one user; the comparison of emails,
  reached without a login or when both earlier stages found nothing, finds more than one
  user with the email of the provider's user. In each the result is the error of that
  stage, no call that writes, and the store as it was. Last, whatever the stage, a result
  that is an error of ambiguity comes with no write and the store unchanged.
\<close>

theorem GitUserAsUser_ambiguous_no_write:
  "(Login user \<noteq> [] \<and> labelLookup r user s = Inr hits \<and> length hits > 1 \<longrightarrow>
      GitUserAsUser r (Some user) s =
        (Inl (MoreThanOneLabel (labelSelectorOf (GitProviderKey r) (Login user)) hits), [], s)) \<and>
   (Login user \<noteq> [] \<and> labelLookup r user s = Inr [] \<and> listAll r s = Inr items \<and>
    length (accountPossibles (GitProviderKey r) (Login user) items) > 1 \<longrightarrow>
      GitUserAsUser r (Some user) s =
        (Inl (MoreThanOneLogin (Login user) (GitProviderKey r)
               (map User_Name (accountPossibles (GitProviderKey r) (Login user) items))), [], s)) \<and>
   ((Login user = [] \<or>
       labelLookup r user s = Inr [] \<and> accountPossibles (GitProviderKey r) (Login user) items = []) \<and>
    listAll r s = Inr items \<and> UserInfo (GitProvider r) (Login user) = Some g \<and>
    length (filter (\<lambda>u. Spec_Email (Spec u) = Email g) items) > 1 \<longrightarrow>
      GitUserAsUser r (Some user) s =
        (Inl (MoreThanOneEmail (Email g)
               (map User_Name (filter (\<lambda>u. Spec_Email (Spec u) = Email g) items))), [], s)) \<and>
   (\<forall>err ws s'. GitUserAsUser r (Some user) s = (Inl err, ws, s') \<and> AmbiguousIdentity err \<longrightarrow>
      ws = [] \<and> s' = s)"
proof (intro conjI impI allI)
  assume "Login user \<noteq> [] \<and> labelLookup r user s = Inr hits \<and> length hits > 1"
  then show "GitUserAsUser r (Some user) s =
        (Inl (MoreThanOneLabel (labelSelectorOf (GitProviderKey r) (Login user)) hits), [], s)"
    by (simp add: GitUserAsUser_def Let_def)
next
  assume "Login user \<noteq> [] \<and> labelLookup r user s = Inr [] \<and> listAll r s = Inr items \<and>
    length (accountPossibles (GitProviderKey r) (Login user) items) > 1"
  then show "GitUserAsUser r (Some user) s =
        (Inl (MoreThanOneLogin (Login user) (GitProviderKey r)
               (map User_Name (accountPossibles (GitProviderKey r) (Login user) items))), [], s)"
    by (simp add: GitUserAsUser_def resolveByAccount_def Let_def)
next
  assume a: "(Login user = [] \<or>
       labelLookup r user s = Inr [] \<and> accountPossibles (GitProviderKey r) (Login user) items = []) \<and>
    listAll r s = Inr items \<and> UserInfo (GitProvider r) (Login user) = Some g \<and>
    length (filter (\<lambda>u. Spec_Email (Spec u) = Email g) items) > 1"
  then have "resolveByEmail r user items s =
      (Inl (MoreThanOneEmail (Email g)
               (map User_Name (filter (\<lambda>u. Spec_Email (Spec u) = Email g) items))), [], s)"
    by (simp add: resolveByEmail_def Let_def)
  with a show "GitUserAsUser r (Some user) s =
        (Inl (MoreThanOneEmail (Email g)
               (map User_Name (filter (\<lambda>u. Spec_Email (Spec u) = Email g) items))), [], s)"
    by (auto simp: GitUserAsUser_def resolveByAccount_def Let_def)
next
  fix err ws s'
  assume a: "GitUserAsUser r (Some user) s = (Inl err, ws, s') \<and> AmbiguousIdentity err"
  have e: "\<And>items. resolveByEmail r user items s = (Inl err, ws, s') \<Longrightarrow> ws = [] \<and> s' = s"
    using a by (auto simp: resolveByEmail_def callUpdate_def callCreate_def Let_def
        split: option.splits if_splits sum.splits prod.splits)
  have "resolveByAccount r user s = (Inl err, ws, s') \<Longrightarrow> ws = [] \<and> s' = s"
    using a e by (auto simp: resolveByAccount_def callUpdate_def Let_def
        split: option.splits if_splits sum.splits prod.splits)
  with a show "ws = []" "s' = s"
    by (auto simp: GitUserAsUser_def Let_def split: if_splits sum.splits)
qed

theorem GitUserAsUser_ambiguous_no_write_witness:
  "GitUserAsUser (github knows_bob) (Some bob)
     [labelled (stored ''carol'' [] []), labelled (stored ''dave'' [] [])] =
     (Inl (MoreThanOneLabel ''jenkins.io/git-github-userid=bob''
            [labelled (stored ''carol'' [] []), labelled (stored ''dave'' [] [])]), [],
      [labelled (stored ''carol'' [] []), labelled (stored ''dave'' [] [])]) \<and>
   GitUserAsUser (github knows_bob) (Some bob)
     [stored ''carol'' [] [bob_account], stored ''dave'' [] [bob_account]] =
     (Inl (MoreThanOneLogin ''bob'' ''jenkins.io/git-github-userid'' [''carol'', ''dave'']), [],
      [stored ''carol'' [] [bob_account], stored ''dave'' [] [bob_account]]) \<and>
   GitUserAsUser (github knows_alice) (Some alice)
     [stored ''carol'' ''alice@co.io'' [], stored ''dave'' ''alice@co.io'' []] =
     (Inl (MoreThanOneEmail ''alice@co.io'' [''carol'', ''dave'']), [],
      [stored ''carol'' ''alice@co.io'' [], stored ''dave'' ''alice@co.io'' []])"
  using
    GitUserAsUser_ambiguous_no_write
      [of bob "github knows_bob"
          "[labelled (stored ''carol'' [] []), labelled (stored ''dave'' [] [])]"
          "[labelled (stored ''carol'' [] []), labelled (stored ''dave'' [] [])]"]
    GitUserAsUser_ambiguous_no_write
      [of bob "github knows_bob"
          "[stored ''carol'' [] [bob_account], stored ''dave'' [] [bob_account]]" _
          "[stored ''carol'' [] [bob_account], stored ''dave'' [] [bob_account]]"]
    GitUserAsUser_ambiguous_no_write
      [of alice "github knows_alice"
          "[stored ''carol'' ''alice@co.io'' [], stored ''dave'' ''alice@co.io'' []]" _
          "[stored ''carol'' ''alice@co.io'' [], stored ''dave'' ''alice@co.io'' []]"
          alice_remote]
  by (simp add: github_def mem_client_def mem_List_def hasLabel_def labelSelectorOf_def
      GitProviderKey_def accountPossibles_def setLabel_def bob_def knows_bob_def stored_def
      bob_account_def labelled_def alice_def alice_remote_def knows_alice_def)

section \<open>Creation when nothing is found\<close>




section \<open>At most one write\<close>

text \<open>
  Claim C4: one call of the resolver writes to the store at most once. Either it issues no
  write and leaves the store as it is; or it issues exactly one \<^verbatim>\<open>Update\<close>, of a user
  found by its account or by its email, to whom the label is set, and its result is that of
  the \<^verbatim>\<open>Update\<close>; or it issues exactly one \<^verbatim>\<open>Create\<close>, of a new user, and its result
  is that of the \<^verbatim>\<open>Create\<close>. Whenever the result is an error the store is unchanged (a
  write that the store refuses has not changed it), and a hit of the listing by label comes
  with no write.
\<close>

theorem GitUserAsUser_at_most_one_write:
  "\<exists>res ws s'. GitUserAsUser r user s = (res, ws, s') \<and> length ws \<le> 1 \<and>
     (ws = [] \<and> s' = s \<or>
      (\<exists>usr found. user = Some usr \<and>
         ws = [UpdateCall (setLabel (GitProviderKey r) (Login usr) found)] \<and>
         (res, ws, s') = callUpdate r (setLabel (GitProviderKey r) (Login usr) found) s) \<or>
      (\<exists>merged. ws = [CreateCall (GitUserToUser r merged)] \<and>
         (res, ws, s') = callCreate r (GitUserToUser r merged) s)) \<and>
     ((\<exists>err. res = Inl err) \<longrightarrow> s' = s) \<and>
     ((\<exists>usr hit. user = Some usr \<and> Login usr \<noteq> [] \<and> labelLookup r usr s = Inr [hit]) \<longrightarrow>
        ws = [] \<and> s' = s)"
proof -
  obtain res ws s' where run: "GitUserAsUser r user s = (res, ws, s')"
    by (cases "GitUserAsUser r user s") auto
  have fast: "ws = [] \<and> s' = s"
    if "\<exists>usr hit. user = Some usr \<and> Login usr \<noteq> [] \<and> labelLookup r usr s = Inr [hit]"
    using that run by (auto simp: GitUserAsUser_fast_path)
  have shape: "(ws = [] \<and> s' = s \<or>
      (\<exists>usr found. user = Some usr \<and>
         ws = [UpdateCall (setLabel (GitProviderKey r) (Login usr) found)] \<and>
         (res, ws, s') = callUpdate r (setLabel (GitProviderKey r) (Login usr) found) s) \<or>
      (\<exists>merged. ws = [CreateCall (GitUserToUser r merged)] \<and>
         (res, ws, s') = callCreate r (GitUserToUser r merged) s)) \<and>
     ((\<exists>err. res = Inl err) \<longrightarrow> s' = s)"
  proof -
    consider
      (err) err where "GitUserAsUser r user s = (Inl err, [], s)"
    | (hit) hit where "GitUserAsUser r user s = (Inr hit, [], s)"
    | (upd) usr found where "user = Some usr"
        "GitUserAsUser r user s = callUpdate r (setLabel (GitProviderKey r) (Login usr) found) s"
    | (new) merged where "GitUserAsUser r user s = callCreate r (GitUserToUser r merged) s"
      using GitUserAsUser_cases [of r user s] by blast
    then show ?thesis
    proof cases
      case err
      with run show ?thesis by simp
    next
      case hit
      with run show ?thesis by simp
    next
      case upd
      let ?u = "setLabel (GitProviderKey r) (Login usr) found"
      from upd run have call: "callUpdate r ?u s = (res, ws, s')" by simp
      then have "ws = [UpdateCall ?u]" by (rule callUpdate_writes)
      moreover from call callUpdate_cases [of r ?u s] have "(\<exists>err. res = Inl err) \<longrightarrow> s' = s"
        by auto
      ultimately show ?thesis using upd(1) call by auto
    next
      case new
      let ?u = "GitUserToUser r merged"
      from new run have call: "callCreate r ?u s = (res, ws, s')" by simp
      then have "ws = [CreateCall ?u]" by (rule callCreate_writes)
      moreover from call callCreate_cases [of r ?u s] have "(\<exists>err. res = Inl err) \<longrightarrow> s' = s"
        by auto
      ultimately show ?thesis using call by auto
    qed
  qed
  then have "length ws \<le> 1" by auto
  with run fast shape show ?thesis by blast
qed

theorem GitUserAsUser_at_most_one_write_witness:
  "GitUserAsUser (github knows_bob) (Some bob) [labelled (stored ''carol'' [] [bob_account])] =
     (Inr (labelled (stored ''carol'' [] [bob_account])), [],
      [labelled (stored ''carol'' [] [bob_account])]) \<and>
   snd (snd (GitUserAsUser (github knows_bob) (Some bob)
     [stored ''carol'' [] [bob_account], stored ''dave'' [] [bob_account]])) =
     [stored ''carol'' [] [bob_account], stored ''dave'' [] [bob_account]]"
  using
    GitUserAsUser_at_most_one_write
      [of "github knows_bob" "Some bob" "[labelled (stored ''carol'' [] [bob_account])]"]
    GitUserAsUser_at_most_one_write
      [of "github knows_bob" "Some bob"
          "[stored ''carol'' [] [bob_account], stored ''dave'' [] [bob_account]]"]
  by (simp add: run_defs)

section \<open>Healing the label\<close>



section \<open>The labelled user\<close>

text \<open>
  Claim C6: with a login, when the listing by label returns exactly one user, the resolver
  returns that user, writes nothing and leaves the store as it is; resolving the same git
  user again, on the store the first call left, returns the same user, again with no write
  and the same store.
\<close>

theorem GitUserAsUser_fast_path_idempotent:
  assumes "Login user \<noteq> []"
    and "labelLookup r user s = Inr [found]"
  shows "GitUserAsUser r (Some user) s = (Inr found, [], s) \<and>
     (case GitUserAsUser r (Some user) s of
        (first, ws, s') \<Rightarrow> GitUserAsUser r (Some user) s' = (first, [], s))"
  using assms by (simp add: GitUserAsUser_def Let_def)

theorem GitUserAsUser_fast_path_idempotent_witness:
  "GitUserAsUser (github knows_bob) (Some bob)
     [labelled (stored ''carol'' [] [bob_account]), stored ''dave'' [] []] =
     (Inr (labelled (stored ''carol'' [] [bob_account])), [],
      [labelled (stored ''carol'' [] [bob_account]), stored ''dave'' [] []])"
proof -
  have 1: "Login bob \<noteq> []" by (simp add: bob_def)
  have 2: "labelLookup (github knows_bob) bob
      [labelled (stored ''carol'' [] [bob_account]), stored ''dave'' [] []] =
      Inr [labelled (stored ''carol'' [] [bob_account])]"
    by (simp add: run_defs)
  from GitUserAsUser_fast_path_idempotent [OF 1 2] show ?thesis by simp
qed

section \<open>Merging git users\<close>

text \<open>
  Claim C7: for two git users, each of the fields avatar URL, URL, name, login and email of
  the merged user is that of the first where it is not empty, and that of the second
  otherwise; when exactly one argument is nil, the result is the other argument.
\<close>

theorem mergeGitUsers_precedence:
  "(\<exists>m. mergeGitUsers (Some primary) (Some secondary) = Some m \<and>
        AvatarURL m = (if AvatarURL primary \<noteq> [] then AvatarURL primary else AvatarURL secondary) \<and>
        URL m = (if URL primary \<noteq> [] then URL primary else URL secondary) \<and>
        Name m = (if Name primary \<noteq> [] then Name primary else Name secondary) \<and>
        Login m = (if Login primary \<noteq> [] then Login primary else Login secondary) \<and>
        Email m = (if Email primary \<noteq> [] then Email primary else Email secondary)) \<and>
   mergeGitUsers None (Some secondary) = Some secondary \<and>
   mergeGitUsers (Some primary) None = Some primary"
  by (simp add: mergeGitUsers_def)

theorem mergeGitUsers_precedence_witness:
  "mergeGitUsers (Some \<lparr> Login = [], Email = ''a@x'', Name = [], URL = [], AvatarURL = [] \<rparr>)
                 (Some \<lparr> Login = [], Email = ''b@x'', Name = ''B'', URL = [], AvatarURL = [] \<rparr>) =
     Some \<lparr> Login = [], Email = ''a@x'', Name = ''B'', URL = [], AvatarURL = [] \<rparr>"
  using mergeGitUsers_precedence
    [of "\<lparr> Login = [], Email = ''a@x'', Name = [], URL = [], AvatarURL = [] \<rparr>"
        "\<lparr> Login = [], Email = ''b@x'', Name = ''B'', URL = [], AvatarURL = [] \<rparr>"]
  by auto

text \<open>
  Claim C8, as amended: when both arguments are nil, \<^verbatim>\<open>mergeGitUsers\<close> returns nil, the
  second argument, and not a git user with empty fields.
\<close>

theorem mergeGitUsers_nil_nil: "mergeGitUsers None None = None"
  by (simp add: mergeGitUsers_def)

theorem mergeGitUsers_nil_nil_counterexample:
  "mergeGitUsers None None \<noteq>
     Some \<lparr> Login = [], Email = [], Name = [], URL = [], AvatarURL = [] \<rparr>"
  by (simp add: mergeGitUsers_def)

section \<open>The email from the commits\<close>

text \<open>
  Claim C9: for a user, a pull request and commits, \<^verbatim>\<open>UpdateUserFromPRAuthor\<close> compares
  the login of the author of each commit, in order, with the login of the user. When the
  first commit whose author has that login is found, it issues exactly one write, the
  \<^verbatim>\<open>Update\<close> of the user with the email of that author, and returns what \<^verbatim>\<open>Update\<close>
  returns. When no commit has an author with that login, it returns the user as given and
  writes nothing, and so it does when the pull request is nil. The login of the user is the
  ID of its first account of the provider, and the login of its \<^verbatim>\<open>Spec\<close> when there is no
  such account or that ID is empty.
\<close>

theorem UpdateUserFromPRAuthor_backfill:
  "(commits = before @ commit # rest \<and> Author commit = Some a \<and>
    Login a = authorGitLogin r author \<and>
    (\<forall>c\<in>set before. \<forall>b. Author c = Some b \<longrightarrow> Login b \<noteq> authorGitLogin r author) \<longrightarrow>
      UpdateUserFromPRAuthor r (Some author) (Some pr) commits s =
        (case Users_Update (JXClient r) (Namespace r)
                (author\<lparr> Spec := (Spec author)\<lparr> Spec_Email := Email a \<rparr> \<rparr>) s of
           Inl err \<Rightarrow>
             (Inl (StoreError err),
              [UpdateCall (author\<lparr> Spec := (Spec author)\<lparr> Spec_Email := Email a \<rparr> \<rparr>)], s)
         | Inr (returned, s') \<Rightarrow>
             (Inr (Some returned),
              [UpdateCall (author\<lparr> Spec := (Spec author)\<lparr> Spec_Email := Email a \<rparr> \<rparr>)], s'))) \<and>
   ((\<forall>c\<in>set commits. \<forall>b. Author c = Some b \<longrightarrow> Login b \<noteq> authorGitLogin r author) \<longrightarrow>
      UpdateUserFromPRAuthor r (Some author) (Some pr) commits s = (Inr (Some author), [], s)) \<and>
   UpdateUserFromPRAuthor r (Some author) None commits s = (Inr (Some author), [], s) \<and>
   ((\<forall>acc\<in>set (Accounts (Spec author)). Provider acc \<noteq> GitProviderKey r) \<longrightarrow>
      authorGitLogin r author = Spec_Login (Spec author)) \<and>
   (Accounts (Spec author) = accs @ acc # accs' \<and>
    (\<forall>b\<in>set accs. Provider b \<noteq> GitProviderKey r) \<and> Provider acc = GitProviderKey r \<longrightarrow>
      authorGitLogin r author = (if ID acc = [] then Spec_Login (Spec author) else ID acc))"
proof (intro conjI impI)
  assume a: "commits = before @ commit # rest \<and> Author commit = Some a \<and>
    Login a = authorGitLogin r author \<and>
    (\<forall>c\<in>set before. \<forall>b. Author c = Some b \<longrightarrow> Login b \<noteq> authorGitLogin r author)"
  then have "commitAuthorEmail (authorGitLogin r author) commits = Some (Email a)"
    by (simp add: commitAuthorEmail_first)
  then show "UpdateUserFromPRAuthor r (Some author) (Some pr) commits s =
        (case Users_Update (JXClient r) (Namespace r)
                (author\<lparr> Spec := (Spec author)\<lparr> Spec_Email := Email a \<rparr> \<rparr>) s of
           Inl err \<Rightarrow>
             (Inl (StoreError err),
              [UpdateCall (author\<lparr> Spec := (Spec author)\<lparr> Spec_Email := Email a \<rparr> \<rparr>)], s)
         | Inr (returned, s') \<Rightarrow>
             (Inr (Some returned),
              [UpdateCall (author\<lparr> Spec := (Spec author)\<lparr> Spec_Email := Email a \<rparr> \<rparr>)], s'))"
    by (simp add: UpdateUserFromPRAuthor_def callUpdate_def Let_def split: sum.splits prod.splits)
next
  assume "\<forall>c\<in>set commits. \<forall>b. Author c = Some b \<longrightarrow> Login b \<noteq> authorGitLogin r author"
  then have "commitAuthorEmail (authorGitLogin r author) commits = None"
    by (rule commitAuthorEmail_none)
  then show "UpdateUserFromPRAuthor r (Some author) (Some pr) commits s = (Inr (Some author), [], s)"
    by (simp add: UpdateUserFromPRAuthor_def Let_def)
next
  show "UpdateUserFromPRAuthor r (Some author) None commits s = (Inr (Some author), [], s)"
    by (simp add: UpdateUserFromPRAuthor_def)
next
  assume "\<forall>acc\<in>set (Accounts (Spec author)). Provider acc \<noteq> GitProviderKey r"
  then show "authorGitLogin r author = Spec_Login (Spec author)"
    by (simp add: authorGitLogin_def GitUserLogin_def firstAccountID_none)
next
  assume "Accounts (Spec author) = accs @ acc # accs' \<and>
    (\<forall>b\<in>set accs. Provider b \<noteq> GitProviderKey r) \<and> Provider acc = GitProviderKey r"
  then show "authorGitLogin r author = (if ID acc = [] then Spec_Login (Spec author) else ID acc)"
    by (simp add: authorGitLogin_def GitUserLogin_def firstAccountID_first Let_def)
qed

theorem UpdateUserFromPRAuthor_backfill_witness:
  "UpdateUserFromPRAuthor (github nobody) (Some (stored ''alice'' [] [alice_account])) (Some ())
     ([\<lparr> Author = None \<rparr>, \<lparr> Author = Some bob \<rparr>] @ \<lparr> Author = Some alice_remote \<rparr> #
        [\<lparr> Author = Some alice \<rparr>])
     [stored ''alice'' [] [alice_account]] =
     (Inr (Some (stored ''alice'' ''alice@co.io'' [alice_account])),
      [UpdateCall (stored ''alice'' ''alice@co.io'' [alice_account])],
      [stored ''alice'' ''alice@co.io'' [alice_account]]) \<and>
   UpdateUserFromPRAuthor (github nobody) (Some (stored ''alice'' [] [alice_account])) (Some ())
     [\<lparr> Author = None \<rparr>, \<lparr> Author = Some bob \<rparr>] [stored ''alice'' [] [alice_account]] =
     (Inr (Some (stored ''alice'' [] [alice_account])), [],
      [stored ''alice'' [] [alice_account]])"
proof -
  let ?r = "github nobody :: (User list, store_error) GitUserResolver"
  let ?author = "stored ''alice'' [] [alice_account]"
  let ?before = "[\<lparr> Author = None \<rparr>, \<lparr> Author = Some bob \<rparr>]"
  have login: "authorGitLogin ?r ?author = ''alice''"
    by (simp add: authorGitLogin_def GitUserLogin_def run_defs alice_account_def)
  have found: "?before @ \<lparr> Author = Some alice_remote \<rparr> # [\<lparr> Author = Some alice \<rparr>] =
        ?before @ \<lparr> Author = Some alice_remote \<rparr> # [\<lparr> Author = Some alice \<rparr>] \<and>
      Author \<lparr> Author = Some alice_remote \<rparr> = Some alice_remote \<and>
      Login alice_remote = authorGitLogin ?r ?author \<and>
      (\<forall>c\<in>set ?before. \<forall>b. Author c = Some b \<longrightarrow> Login b \<noteq> authorGitLogin ?r ?author)"
    by (simp add: login alice_remote_def bob_def)
  have none: "\<forall>c\<in>set ?before. \<forall>b. Author c = Some b \<longrightarrow> Login b \<noteq> authorGitLogin ?r ?author"
    by (simp add: login bob_def)
  note inst = UpdateUserFromPRAuthor_backfill
      [of _ _ _ _ _ ?r ?author "()" "[stored ''alice'' [] [alice_account]]"]
  from inst [THEN conjunct1, THEN mp, OF found]
  have 1: "UpdateUserFromPRAuthor ?r (Some ?author) (Some ())
     (?before @ \<lparr> Author = Some alice_remote \<rparr> # [\<lparr> Author = Some alice \<rparr>])
     [stored ''alice'' [] [alice_account]] =
     (Inr (Some (stored ''alice'' ''alice@co.io'' [alice_account])),
      [UpdateCall (stored ''alice'' ''alice@co.io'' [alice_account])],
      [stored ''alice'' ''alice@co.io'' [alice_account]])"
    by (simp add: github_def mem_client_def mem_Update_def stored_def alice_remote_def)
  from inst [THEN conjunct2, THEN conjunct1, THEN mp, OF none]
  have 2: "UpdateUserFromPRAuthor ?r (Some ?author) (Some ())
     ?before [stored ''alice'' [] [alice_account]] =
     (Inr (Some ?author), [], [stored ''alice'' [] [alice_account]])" .
  from 1 2 show ?thesis by simp
qed

section \<open>No login\<close>

text \<open>
  Claim C10: for a git user with an empty login the resolver skips the listing by label
  and the scan of the accounts. Its result is that of the last part alone, run on the
  listing of all users; it is never the error of more than one user with a label or with a
  login; and a user is only ever returned together with a write of the last part, the
  \<^verbatim>\<open>Update\<close> of a user to whom the account of the provider's user was appended, or a
  \<^verbatim>\<open>Create\<close>.
\<close>

theorem GitUserAsUser_empty_login:
  assumes "Login user = []"
  shows "GitUserAsUser r (Some user) s =
       (case listAll r s of
          Inl err \<Rightarrow> (Inl (StoreError err), [], s)
        | Inr items \<Rightarrow> resolveByEmail r user items s) \<and>
     (\<forall>labelSelector hits.
        fst (GitUserAsUser r (Some user) s) \<noteq> Inl (MoreThanOneLabel labelSelector hits)) \<and>
     (\<forall>login providerKey names.
        fst (GitUserAsUser r (Some user) s) \<noteq> Inl (MoreThanOneLogin login providerKey names)) \<and>
     (\<forall>u ws s'. GitUserAsUser r (Some user) s = (Inr u, ws, s') \<longrightarrow>
        (\<exists>found (g::GitUser). ws = [UpdateCall (setLabel (GitProviderKey r) []
            (appendAccount (Login g) (GitProviderKey r) found))]) \<or>
        (\<exists>merged. ws = [CreateCall (GitUserToUser r merged)]))"
proof -
  have run: "GitUserAsUser r (Some user) s =
       (case listAll r s of
          Inl err \<Rightarrow> (Inl (StoreError err), [], s)
        | Inr items \<Rightarrow> resolveByEmail r user items s)"
    using assms by (simp add: GitUserAsUser_def resolveByAccount_def Let_def split: sum.splits)
  have err: "(\<exists>email names. err = MoreThanOneEmail email names) \<or> (\<exists>e. err = StoreError e)"
    if "fst (GitUserAsUser r (Some user) s) = Inl err" for err
  proof (cases "listAll r s")
    case (Inl e)
    with run that show ?thesis by auto
  next
    case (Inr items)
    with run that have "\<exists>ws s'. resolveByEmail r user items s = (Inl err, ws, s')"
      by (cases "resolveByEmail r user items s") simp
    then show ?thesis by (auto dest: resolveByEmail_error)
  qed
  have ret: "(\<exists>found (g::GitUser). ws = [UpdateCall (setLabel (GitProviderKey r) []
            (appendAccount (Login g) (GitProviderKey r) found))]) \<or>
        (\<exists>merged. ws = [CreateCall (GitUserToUser r merged)])"
    if "GitUserAsUser r (Some user) s = (Inr u, ws, s')" for u ws s'
  proof (cases "listAll r s")
    case (Inl e)
    with run that show ?thesis by simp
  next
    case (Inr items)
    with run that have "resolveByEmail r user items s = (Inr u, ws, s')" by simp
    from resolveByEmail_returns [OF this] assms show ?thesis by simp
  qed
  show ?thesis
  proof (intro conjI allI impI)
    show "GitUserAsUser r (Some user) s =
       (case listAll r s of
          Inl err \<Rightarrow> (Inl (StoreError err), [], s)
        | Inr items \<Rightarrow> resolveByEmail r user items s)"
      by (rule run)
  next
    fix labelSelector hits
    show "fst (GitUserAsUser r (Some user) s) \<noteq> Inl (MoreThanOneLabel labelSelector hits)"
      using err [of "MoreThanOneLabel labelSelector hits"] by auto
  next
    fix login providerKey names
    show "fst (GitUserAsUser r (Some user) s) \<noteq> Inl (MoreThanOneLogin login providerKey names)"
      using err [of "MoreThanOneLogin login providerKey names"] by auto
  next
    fix u ws s'
    assume "GitUserAsUser r (Some user) s = (Inr u, ws, s')"
    then show "(\<exists>found (g::GitUser). ws = [UpdateCall (setLabel (GitProviderKey r) []
            (appendAccount (Login g) (GitProviderKey r) found))]) \<or>
        (\<exists>merged. ws = [CreateCall (GitUserToUser r merged)])"
      by (rule ret)
  qed
qed

theorem GitUserAsUser_empty_login_witness:
  "GitUserAsUser (github knows_alice) (Some signature) [stored ''carol'' [] [empty_login_account]] =
     (Inr (GitUserToUser (github knows_alice) signature),
      [CreateCall (GitUserToUser (github knows_alice) signature)],
      [stored ''carol'' [] [empty_login_account], GitUserToUser (github knows_alice) signature])"
proof -
  have "Login signature = []" by (simp add: signature_def)
  from GitUserAsUser_empty_login [OF this] show ?thesis
    by (simp add: run_defs signature_def empty_login_account_def)
qed

end
